theory Spec2Isabelle
  imports Main
begin

section \<open>Values shared by the three modules\<close>

text \<open>
  A thrown JavaScript exception, by class, with its message. The source throws plain
  \<^verbatim>\<open>Error\<close> objects itself; the other classes are what the runtime and the identity
  provider's client raise (\<^verbatim>\<open>toISOString\<close> on an invalid date, a property read on
  \<^verbatim>\<open>undefined\<close>, \<^verbatim>\<open>response.json()\<close> on a body that is not JSON, and the provider's
  interaction-required error that \<^verbatim>\<open>getAccessToken\<close> tests with \<^verbatim>\<open>instanceof\<close>).
\<close>

datatype js_error =
    Error string
  | TypeError string
  | RangeError string
  | SyntaxError string
  | InteractionRequiredAuthError string

fun message :: "js_error \<Rightarrow> string" where
  "message (Error m) = m"
| "message (TypeError m) = m"
| "message (RangeError m) = m"
| "message (SyntaxError m) = m"
| "message (InteractionRequiredAuthError m) = m"

text \<open>
  One key of \<^verbatim>\<open>localStorage\<close>: \<open>Absent\<close> when \<^verbatim>\<open>getItem\<close> answers \<^verbatim>\<open>null\<close> (or the
  empty string, which is falsy as well), \<open>Corrupt\<close> when \<^verbatim>\<open>JSON.parse\<close> raises on the
  stored text, \<open>Saved v\<close> when the text is the serialisation of \<open>v\<close>.
\<close>

datatype 'a stored = Absent | Corrupt | Saved 'a

text \<open>Decimal digits of a number, as a template literal prints \<^verbatim>\<open>response.status\<close>.\<close>

definition digit_char :: "nat \<Rightarrow> char" where
  "digit_char d = (''0123456789'' ! d)"

function show_nat :: "nat \<Rightarrow> string" where
  "show_nat n = (if n < 10 then [digit_char n] else show_nat (n div 10) @ [digit_char (n mod 10)])"
  by pat_completeness auto
termination
  by (relation "measure id") auto

text \<open>
  An HTTP response as \<^verbatim>\<open>fetch\<close> resolves it: the \<^verbatim>\<open>ok\<close> flag, the status, the status
  text and what \<^verbatim>\<open>response.json()\<close> gives (a raised error, or the parsed body).
\<close>

record 'b response =
  ok :: bool
  status :: nat
  statusText :: string
  json :: "js_error + 'b"

text \<open>An entry of the account's authentication methods, with its \<^verbatim>\<open>@odata.type\<close> tag.\<close>

record auth_method =
  odata_type :: string
  method_id :: string

section \<open>The data of the temporary access pass module\<close>

text \<open>
  Timestamps are milliseconds since the epoch, as \<^verbatim>\<open>Date.getTime\<close> counts them. An ISO
  date string is represented by the instant \<^verbatim>\<open>new Date(string)\<close> reads from it,
  \<open>None\<close> when \<^verbatim>\<open>Date\<close> cannot read it (the time value is \<^verbatim>\<open>NaN\<close>).
\<close>

text \<open>The \<^verbatim>\<open>config\<close> argument of \<^verbatim>\<open>generateTAP\<close>: each field may be absent.\<close>

record tap_config =
  cfg_lifetimeInMinutes :: "int option"
  cfg_isUsableOnce :: "bool option"

text \<open>The merged \<^verbatim>\<open>tapConfig\<close> object.\<close>

record tap_settings =
  tc_lifetimeInMinutes :: int
  tc_isUsableOnce :: bool

text \<open>The body of the POST request.\<close>

record request_body =
  rb_odata_type :: string
  rb_lifetimeInMinutes :: int
  rb_isUsableOnce :: bool

text \<open>The pass record the remote create call answers with.\<close>

record tap_result =
  res_id :: string
  res_temporaryAccessPass :: string
  res_createdDateTime :: "int option"
  res_lifetimeInMinutes :: int
  res_isUsableOnce :: bool

text \<open>
  The JSON body of the answer to the create call: the created pass, or an error object
  whose \<^verbatim>\<open>error.message\<close> may be missing.
\<close>

datatype tap_body = ResultBody tap_result | ErrorBody "string option"

text \<open>The \<^verbatim>\<open>tapData\<close> object that is displayed and kept in the history.\<close>

record tap =
  tap_id :: string
  temporaryAccessPass :: string
  createdDateTime :: "int option"
  lifetimeInMinutes :: int
  isUsableOnce :: bool
  expiresDateTime :: int
  createdBy :: string

section \<open>The authentication manager\<close>

record account =
  username :: string

text \<open>
  The fields of \<^verbatim>\<open>AuthManager\<close> the other modules read: whether the provider client
  was created, the active account and the authentication flag.
\<close>

record auth =
  msalInstance :: bool
  currentUser :: "account option"
  isAuthenticated :: bool

text \<open>
  What the world outside the page answers during one call: the global
  \<^verbatim>\<open>window.authManager\<close> (absent when the script did not load), the provider's two token
  calls, the three remote calls of the identity graph, the clock, whether the countdown
  element is in the document, whether \<^verbatim>\<open>localStorage.setItem\<close> succeeds, and whether a
  wizard step's simulated operation runs to its end (the statements of the handler's
  \<^verbatim>\<open>try\<close> block before the flag is set do not raise).
\<close>

record world =
  authManager :: "auth option"
  acquireTokenSilent :: "js_error + string"
  acquireTokenRedirect :: "js_error + string"
  fetchMethods :: "js_error + (auth_method list option) response"
  postTAP :: "request_body \<Rightarrow> js_error + tap_body response"
  deleteTAPMethod :: "string \<Rightarrow> js_error + unit response"
  now :: int
  hasCountdownElement :: bool
  storageWritable :: bool
  stepActionCompletes :: bool

text \<open>
  \<^verbatim>\<open>getAccessToken\<close>: silent acquisition, with one interactive fallback when the
  provider asks for interaction; every other error is thrown again.
\<close>

definition getAccessToken :: "world \<Rightarrow> auth \<Rightarrow> js_error + string" where
  "getAccessToken w a =
     (case (if \<not> msalInstance a \<or> currentUser a = None
            then Inl (Error (''No hay sesi'' @ [CHR 0xC3, CHR 0xB3] @ ''n activa''))
            else acquireTokenSilent w) of
        Inr accessToken \<Rightarrow> Inr accessToken
      | Inl e \<Rightarrow>
          (case e of
             InteractionRequiredAuthError m \<Rightarrow>
               (case acquireTokenRedirect w of
                  Inr accessToken \<Rightarrow> Inr accessToken
                | Inl redirectError \<Rightarrow> Inl redirectError)
           | _ \<Rightarrow> Inl e))"

text \<open>
  The object \<^verbatim>\<open>checkPasswordlessStatus\<close> returns. Its \<^verbatim>\<open>methods\<close> key is the field
  \<open>status_methods\<close> here, its \<^verbatim>\<open>error\<close> key (present on the failure path only) the
  field \<open>status_error\<close>.
\<close>

record passwordless_status =
  hasPasswordless :: bool
  status_methods :: "auth_method list"
  allMethods :: "auth_method list"
  status_error :: "string option"

definition isPasswordlessMethod :: "auth_method \<Rightarrow> bool" where
  "isPasswordlessMethod m =
     (odata_type m = ''#microsoft.graph.fido2AuthenticationMethod'' \<or>
      odata_type m = ''#microsoft.graph.windowsHelloForBusinessAuthenticationMethod'' \<or>
      odata_type m = ''#microsoft.graph.microsoftAuthenticatorAuthenticationMethod'')"

definition statusFailed :: "js_error \<Rightarrow> passwordless_status" where
  "statusFailed e =
     \<lparr>hasPasswordless = False, status_methods = [], allMethods = [],
      status_error = Some (message e)\<rparr>"

text \<open>
  \<^verbatim>\<open>checkPasswordlessStatus\<close>. The parsed body is \<open>None\<close> when it has no \<^verbatim>\<open>value\<close>
  array, and \<^verbatim>\<open>methods.value.filter\<close> raises a type error then. Every error ends in
  the \<^verbatim>\<open>catch\<close> block, which returns \<open>statusFailed\<close>.
\<close>

definition checkPasswordlessStatus :: "world \<Rightarrow> auth \<Rightarrow> passwordless_status" where
  "checkPasswordlessStatus w a =
     (case getAccessToken w a of
        Inl e \<Rightarrow> statusFailed e
      | Inr token \<Rightarrow>
          (case fetchMethods w of
             Inl e \<Rightarrow> statusFailed e
           | Inr r \<Rightarrow>
               if \<not> ok r
               then statusFailed (Error (''Error Graph API: '' @ show_nat (status r)))
               else (case json r of
                       Inl e \<Rightarrow> statusFailed e
                     | Inr None \<Rightarrow>
                         statusFailed (TypeError ''Cannot read properties of undefined'')
                     | Inr (Some v) \<Rightarrow>
                         (let passwordlessMethods = filter isPasswordlessMethod v
                          in \<lparr>hasPasswordless = length passwordlessMethods > 0,
                              status_methods = passwordlessMethods,
                              allMethods = v,
                              status_error = None\<rparr>))))"

section \<open>The wizard controller\<close>

record progress =
  step1 :: bool
  step2 :: bool
  step3 :: bool
  passwordlessEnabled :: bool
  methods :: "auth_method list"

text \<open>
  The fields of \<^verbatim>\<open>PasswordlessManager\<close>; the calls of \<^verbatim>\<open>nextStep\<close> that are suspended
  at their \<^verbatim>\<open>await\<close>, oldest first, each with the value of \<^verbatim>\<open>isValid\<close> it will resume
  with; the number of pending callbacks that \<^verbatim>\<open>validateSetup\<close> scheduled with
  \<^verbatim>\<open>setTimeout\<close>; and the \<^verbatim>\<open>passwordlessProgress\<close> key of the local storage.
\<close>

record wizard =
  currentStep :: int
  totalSteps :: int
  userProgress :: progress
  pendingNextSteps :: "bool list"
  completionTimers :: nat
  progressStorage :: "progress stored"

definition getDefaultProgress :: progress where
  "getDefaultProgress =
     \<lparr>step1 = False, step2 = False, step3 = False, passwordlessEnabled = False, methods = []\<rparr>"

definition loadProgress :: "progress stored \<Rightarrow> progress" where
  "loadProgress st =
     (case st of
        Saved saved \<Rightarrow> saved
      | Absent \<Rightarrow> getDefaultProgress
      | Corrupt \<Rightarrow> getDefaultProgress)"

definition saveProgress :: "world \<Rightarrow> wizard \<Rightarrow> wizard" where
  "saveProgress w s =
     (if storageWritable w then s\<lparr>progressStorage := Saved (userProgress s)\<rparr> else s)"

text \<open>The constructor: the cursor at step 1, three steps, the progress read from storage.\<close>

definition constructor :: "progress stored \<Rightarrow> wizard" where
  "constructor st =
     \<lparr>currentStep = 1, totalSteps = 3, userProgress = loadProgress st,
      pendingNextSteps = [], completionTimers = 0, progressStorage = st\<rparr>"

text \<open>
  \<^verbatim>\<open>loadUserProgress\<close>. When the provider reports a passwordless method the cursor goes
  to 4 and the progress is overwritten with all flags set; the storage is not written.
  The \<^verbatim>\<open>catch\<close> block (default progress) is reached when the call on
  \<^verbatim>\<open>window.authManager\<close> raises, that is when the global is absent.
\<close>

definition loadUserProgress :: "world \<Rightarrow> wizard \<Rightarrow> wizard" where
  "loadUserProgress w s =
     (case authManager w of
        None \<Rightarrow> s\<lparr>userProgress := getDefaultProgress\<rparr>
      | Some a \<Rightarrow>
          (let passwordlessStatus = checkPasswordlessStatus w a
           in if hasPasswordless passwordlessStatus
              then s\<lparr>currentStep := 4,
                     userProgress :=
                       \<lparr>step1 = True, step2 = True, step3 = True, passwordlessEnabled = True,
                        methods = status_methods passwordlessStatus\<rparr>\<rparr>
              else s\<lparr>userProgress := loadProgress (progressStorage s)\<rparr>))"

definition initializeApp :: "world \<Rightarrow> wizard \<Rightarrow> wizard" where
  "initializeApp w s =
     (case authManager w of
        None \<Rightarrow> s
      | Some a \<Rightarrow> if isAuthenticated a then loadUserProgress w s else s)"

definition validateCurrentStep :: "wizard \<Rightarrow> bool" where
  "validateCurrentStep s =
     (if currentStep s = 1 then step1 (userProgress s)
      else if currentStep s = 2 then step2 (userProgress s)
      else if currentStep s = 3 then step3 (userProgress s)
      else True)"

text \<open>
  \<^verbatim>\<open>nextStep\<close> is asynchronous. A call runs up to its \<^verbatim>\<open>await\<close>: it tests the cursor
  against \<open>totalSteps\<close> and calls \<^verbatim>\<open>validateCurrentStep\<close>, whose body reads the flag of
  the current step at once, and is suspended with that value. The rest of the body (the
  test of \<^verbatim>\<open>isValid\<close>, the increment and the save) runs later, as a microtask, after
  the code that made the call has run to its end; suspended calls resume in the order
  they were made. Two calls made in one turn therefore both test the cursor and read the
  flag before either increments.
\<close>

definition nextStep :: "wizard \<Rightarrow> wizard" where
  "nextStep s =
     (if currentStep s < totalSteps s
      then s\<lparr>pendingNextSteps := pendingNextSteps s @ [validateCurrentStep s]\<rparr>
      else s)"

definition nextStep_resumes :: "world \<Rightarrow> wizard \<Rightarrow> wizard" where
  "nextStep_resumes w s =
     (case pendingNextSteps s of
        [] \<Rightarrow> s
      | isValid # rest \<Rightarrow>
          (let s1 = s\<lparr>pendingNextSteps := rest\<rparr>
           in if \<not> isValid then s1
              else saveProgress w (s1\<lparr>currentStep := currentStep s1 + 1\<rparr>)))"

definition prevStep :: "wizard \<Rightarrow> wizard" where
  "prevStep s = (if currentStep s > 1 then s\<lparr>currentStep := currentStep s - 1\<rparr> else s)"

text \<open>
  The three step handlers. Each sets its flag and saves once the simulated operation is
  over; when the \<^verbatim>\<open>try\<close> block raises before that, the \<^verbatim>\<open>catch\<close> block only shows a
  message. \<^verbatim>\<open>validateSetup\<close> also schedules the callback that moves the cursor.
\<close>

definition verifyRequirements :: "world \<Rightarrow> wizard \<Rightarrow> wizard" where
  "verifyRequirements w s =
     (if stepActionCompletes w
      then saveProgress w (s\<lparr>userProgress := (userProgress s)\<lparr>step1 := True\<rparr>\<rparr>)
      else s)"

definition setupAuthenticationMethods :: "world \<Rightarrow> wizard \<Rightarrow> wizard" where
  "setupAuthenticationMethods w s =
     (if stepActionCompletes w
      then saveProgress w (s\<lparr>userProgress := (userProgress s)\<lparr>step2 := True\<rparr>\<rparr>)
      else s)"

definition validateSetup :: "world \<Rightarrow> wizard \<Rightarrow> wizard" where
  "validateSetup w s =
     (if stepActionCompletes w
      then (saveProgress w
              (s\<lparr>userProgress := (userProgress s)\<lparr>step3 := True, passwordlessEnabled := True\<rparr>\<rparr>))
             \<lparr>completionTimers := completionTimers s + 1\<rparr>
      else s)"

text \<open>The callback of \<^verbatim>\<open>validateSetup\<close>'s \<^verbatim>\<open>setTimeout\<close>; it runs only if one is pending.\<close>

definition completionTimer :: "wizard \<Rightarrow> wizard" where
  "completionTimer s =
     (if completionTimers s = 0 then s
      else s\<lparr>currentStep := totalSteps s + 1, completionTimers := completionTimers s - 1\<rparr>)"

text \<open>
  The events of the wizard page: a call of \<^verbatim>\<open>nextStep\<close> up to its \<^verbatim>\<open>await\<close>, the oldest
  suspended call resuming, \<^verbatim>\<open>prevStep\<close>, a step handler at the moment its simulated
  operation is over (all its assignments follow its last \<^verbatim>\<open>await\<close>), the callback of
  \<^verbatim>\<open>validateSetup\<close>, and \<open>Reload\<close>, a fresh page load: the constructor on the stored
  progress, then \<^verbatim>\<open>initializeApp\<close>.
\<close>

datatype wizard_event =
    NextStep
  | NextStepResumes
  | PrevStep
  | VerifyRequirements
  | SetupAuthenticationMethods
  | ValidateSetup
  | CompletionTimer
  | Reload

fun wizard_step :: "world \<Rightarrow> wizard_event \<Rightarrow> wizard \<Rightarrow> wizard" where
  "wizard_step w NextStep s = nextStep s"
| "wizard_step w NextStepResumes s = nextStep_resumes w s"
| "wizard_step w PrevStep s = prevStep s"
| "wizard_step w VerifyRequirements s = verifyRequirements w s"
| "wizard_step w SetupAuthenticationMethods s = setupAuthenticationMethods w s"
| "wizard_step w ValidateSetup s = validateSetup w s"
| "wizard_step w CompletionTimer s = completionTimer s"
| "wizard_step w Reload s = initializeApp w (constructor (progressStorage s))"

fun wizard_run :: "(world \<times> wizard_event) list \<Rightarrow> wizard \<Rightarrow> wizard" where
  "wizard_run [] s = s"
| "wizard_run ((w, e) # evs) s = wizard_run evs (wizard_step w e s)"

section \<open>The temporary access pass manager\<close>

text \<open>
  The fields of \<^verbatim>\<open>TAPManager\<close>, the running \<^verbatim>\<open>setInterval\<close> timers (each handle with
  the expiry time its callback closed over), the next handle \<^verbatim>\<open>setInterval\<close> gives out
  (handles are positive, hence truthy), and the \<^verbatim>\<open>tapHistory\<close> key of the local storage.
  Rendering into the document is outside the model and is taken not to raise.
\<close>

record tap_manager =
  currentTAP :: "tap option"
  tapHistory :: "tap list"
  currentCountdownInterval :: "nat option"
  intervals :: "nat \<rightharpoonup> int"
  nextInterval :: nat
  historyStorage :: "tap list stored"

text \<open>The constructor followed by \<^verbatim>\<open>init\<close>: the history is read from the storage.\<close>

definition newTAPManager :: "tap list stored \<Rightarrow> tap_manager" where
  "newTAPManager st =
     \<lparr>currentTAP = None,
      tapHistory = (case st of Saved savedHistory \<Rightarrow> savedHistory | Absent \<Rightarrow> [] | Corrupt \<Rightarrow> []),
      currentCountdownInterval = None,
      intervals = Map.empty,
      nextInterval = 1,
      historyStorage = st\<rparr>"

text \<open>
  The merge of the configuration: the two defaults through JavaScript's \<^verbatim>\<open>||\<close> (which
  also replaces a falsy value, 0 or false), then the spread of \<^verbatim>\<open>config\<close>, which
  overwrites every field that \<^verbatim>\<open>config\<close> has.
\<close>

definition tapConfig :: "tap_config \<Rightarrow> tap_settings" where
  "tapConfig config =
     (let defaults =
            \<lparr>tc_lifetimeInMinutes =
               (case cfg_lifetimeInMinutes config of
                  None \<Rightarrow> 60
                | Some v \<Rightarrow> if v = 0 then 60 else v),
             tc_isUsableOnce =
               (case cfg_isUsableOnce config of
                  None \<Rightarrow> False
                | Some b \<Rightarrow> if b then b else False)\<rparr>
      in \<lparr>tc_lifetimeInMinutes =
            (case cfg_lifetimeInMinutes config of
               None \<Rightarrow> tc_lifetimeInMinutes defaults
             | Some v \<Rightarrow> v),
          tc_isUsableOnce =
            (case cfg_isUsableOnce config of
               None \<Rightarrow> tc_isUsableOnce defaults
             | Some b \<Rightarrow> b)\<rparr>)"

definition requestBody :: "tap_settings \<Rightarrow> request_body" where
  "requestBody tc =
     \<lparr>rb_odata_type = ''#microsoft.graph.temporaryAccessPassAuthenticationMethod'',
      rb_lifetimeInMinutes = tc_lifetimeInMinutes tc,
      rb_isUsableOnce = tc_isUsableOnce tc\<rparr>"

text \<open>
  \<^verbatim>\<open>Date\<close>: a time value is valid within 8.64e15 milliseconds of the epoch; beyond, the
  date is invalid, its time is \<^verbatim>\<open>NaN\<close> and \<^verbatim>\<open>toISOString\<close> raises a range error. On
  whole numbers in that range the double arithmetic of the source is exact.
\<close>

definition validTime :: "int \<Rightarrow> bool" where
  "validTime t = (- 8640000000000000 \<le> t \<and> t \<le> 8640000000000000)"

definition getTime :: "int option \<Rightarrow> int option" where
  "getTime d = (case d of None \<Rightarrow> None | Some t \<Rightarrow> if validTime t then Some t else None)"

definition toISOString :: "int option \<Rightarrow> js_error + int" where
  "toISOString t =
     (case getTime t of
        None \<Rightarrow> Inl (RangeError ''Invalid time value'')
      | Some v \<Rightarrow> Inr v)"

text \<open>\<^verbatim>\<open>errorData.error?.message || response.statusText\<close>\<close>

definition errorMessage :: "tap_body \<Rightarrow> string \<Rightarrow> string" where
  "errorMessage errorData st =
     (case errorData of
        ErrorBody (Some m) \<Rightarrow> if m = [] then st else m
      | ErrorBody None \<Rightarrow> st
      | ResultBody r \<Rightarrow> st)"

text \<open>\<^verbatim>\<open>Array.prototype.slice(-k)\<close>: the last \<open>k\<close> elements, all of them when there are fewer.\<close>

definition slice_from_end :: "nat \<Rightarrow> 'a list \<Rightarrow> 'a list" where
  "slice_from_end k xs = drop (length xs - k) xs"

definition saveHistory :: "world \<Rightarrow> tap_manager \<Rightarrow> tap_manager" where
  "saveHistory w s =
     (if storageWritable w then s\<lparr>historyStorage := Saved (tapHistory s)\<rparr> else s)"

definition addToHistory :: "world \<Rightarrow> tap \<Rightarrow> tap_manager \<Rightarrow> tap_manager" where
  "addToHistory w tapData s =
     (let s1 = (if length (tapHistory s) \<ge> 10
                then s\<lparr>tapHistory := slice_from_end 9 (tapHistory s)\<rparr>
                else s);
          s2 = s1\<lparr>tapHistory := tapHistory s1 @ [tapData]\<rparr>
      in saveHistory w s2)"

definition hideTAPDisplay :: "tap_manager \<Rightarrow> tap_manager" where
  "hideTAPDisplay s =
     (let s1 = (case currentCountdownInterval s of
                  Some i \<Rightarrow> s\<lparr>intervals := (intervals s)(i := None),
                               currentCountdownInterval := None\<rparr>
                | None \<Rightarrow> s)
      in s1\<lparr>currentTAP := None\<rparr>)"

text \<open>The closure \<^verbatim>\<open>updateCountdown\<close> of \<^verbatim>\<open>startTAPCountdown\<close>, with the expiry it captured.\<close>

definition updateCountdown :: "int \<Rightarrow> world \<Rightarrow> tap_manager \<Rightarrow> tap_manager" where
  "updateCountdown expiresTime w s =
     (let remaining = expiresTime - now w
      in if remaining \<le> 0 then hideTAPDisplay s else s)"

definition startTAPCountdown :: "world \<Rightarrow> tap \<Rightarrow> tap_manager \<Rightarrow> tap_manager" where
  "startTAPCountdown w tapData s =
     (if \<not> hasCountdownElement w then s
      else (let expiresTime = expiresDateTime tapData;
                s1 = updateCountdown expiresTime w s;
                interval = nextInterval s1
            in s1\<lparr>intervals := (intervals s1)(interval \<mapsto> expiresTime),
                  nextInterval := Suc interval,
                  currentCountdownInterval := Some interval\<rparr>))"

text \<open>One firing of the timer with handle \<open>i\<close>; a cleared timer does not fire.\<close>

definition intervalFires :: "world \<Rightarrow> nat \<Rightarrow> tap_manager \<Rightarrow> tap_manager" where
  "intervalFires w i s =
     (case intervals s i of
        None \<Rightarrow> s
      | Some expiresTime \<Rightarrow> updateCountdown expiresTime w s)"

text \<open>
  \<^verbatim>\<open>generateTAP\<close>: the result is the thrown error or the returned \<^verbatim>\<open>tapData\<close>, with the
  manager's state afterwards. Every error is raised before the first assignment to a
  field, and the \<^verbatim>\<open>catch\<close> block shows it and throws it again.
\<close>

definition generateTAP ::
  "world \<Rightarrow> tap_config \<Rightarrow> tap_manager \<Rightarrow> (js_error + tap) \<times> tap_manager" where
  "generateTAP w config s =
     (case authManager w of
        None \<Rightarrow> (Inl (Error ''Usuario no autenticado''), s)
      | Some a \<Rightarrow>
          if \<not> isAuthenticated a then (Inl (Error ''Usuario no autenticado''), s)
          else
            (case getAccessToken w a of
               Inl e \<Rightarrow> (Inl e, s)
             | Inr token \<Rightarrow>
                 (case postTAP w (requestBody (tapConfig config)) of
                    Inl e \<Rightarrow> (Inl e, s)
                  | Inr r \<Rightarrow>
                      if \<not> ok r
                      then (case json r of
                              Inl e \<Rightarrow> (Inl e, s)
                            | Inr errorData \<Rightarrow>
                                (Inl (Error (''Error Graph API: '' @
                                        errorMessage errorData (statusText r))), s))
                      else
                        (case json r of
                           Inl e \<Rightarrow> (Inl e, s)
                         | Inr (ErrorBody m) \<Rightarrow> (Inl (RangeError ''Invalid time value''), s)
                         | Inr (ResultBody result) \<Rightarrow>
                             (case toISOString
                                     (case getTime (res_createdDateTime result) of
                                        None \<Rightarrow> None
                                      | Some created \<Rightarrow>
                                          Some (created + res_lifetimeInMinutes result * 60000)) of
                                Inl e \<Rightarrow> (Inl e, s)
                              | Inr expires \<Rightarrow>
                                  (case currentUser a of
                                     None \<Rightarrow>
                                       (Inl (TypeError ''Cannot read properties of null''), s)
                                   | Some user \<Rightarrow>
                                       (let tapData =
                                              \<lparr>tap_id = res_id result,
                                               temporaryAccessPass = res_temporaryAccessPass result,
                                               createdDateTime = res_createdDateTime result,
                                               lifetimeInMinutes = res_lifetimeInMinutes result,
                                               isUsableOnce = res_isUsableOnce result,
                                               expiresDateTime = expires,
                                               createdBy = username user\<rparr>;
                                            s1 = s\<lparr>currentTAP := Some tapData\<rparr>;
                                            s2 = addToHistory w tapData s1;
                                            s3 = startTAPCountdown w tapData s2
                                        in (Inr tapData, s3))))))))"

text \<open>
  \<^verbatim>\<open>deleteTAP\<close>: the \<^verbatim>\<open>try\<close> block, whose result is the raised error or the state after
  the local removal, and the method itself, whose \<^verbatim>\<open>catch\<close> block turns every error
  into the answer \<^verbatim>\<open>false\<close>.
\<close>

definition deleteTAP_try :: "world \<Rightarrow> string \<Rightarrow> tap_manager \<Rightarrow> js_error + tap_manager" where
  "deleteTAP_try w tapId s =
     (case authManager w of
        None \<Rightarrow> Inl (Error ''Usuario no autenticado'')
      | Some a \<Rightarrow>
          if \<not> isAuthenticated a then Inl (Error ''Usuario no autenticado'')
          else
            (case getAccessToken w a of
               Inl e \<Rightarrow> Inl e
             | Inr token \<Rightarrow>
                 (case deleteTAPMethod w tapId of
                    Inl e \<Rightarrow> Inl e
                  | Inr r \<Rightarrow>
                      if \<not> ok r \<and> status r \<noteq> 204
                      then Inl (Error (''Error Graph API: '' @ show_nat (status r)))
                      else Inr (saveHistory w
                                  (s\<lparr>tapHistory :=
                                       filter (\<lambda>tap. tap_id tap \<noteq> tapId) (tapHistory s)\<rparr>)))))"

definition deleteTAP :: "world \<Rightarrow> string \<Rightarrow> tap_manager \<Rightarrow> bool \<times> tap_manager" where
  "deleteTAP w tapId s =
     (case deleteTAP_try w tapId s of
        Inr s' \<Rightarrow> (True, s')
      | Inl e \<Rightarrow> (False, s))"

text \<open>The events of the pass page: the calls, the timers firing, and a page reload.\<close>

datatype tap_event =
    GenerateTAP tap_config
  | DeleteTAP string
  | IntervalFires nat
  | HideTAPDisplay
  | ReloadTAP

fun tap_step :: "world \<Rightarrow> tap_event \<Rightarrow> tap_manager \<Rightarrow> tap_manager" where
  "tap_step w (GenerateTAP config) s = snd (generateTAP w config s)"
| "tap_step w (DeleteTAP tapId) s = snd (deleteTAP w tapId s)"
| "tap_step w (IntervalFires i) s = intervalFires w i s"
| "tap_step w HideTAPDisplay s = hideTAPDisplay s"
| "tap_step w ReloadTAP s = newTAPManager (historyStorage s)"

fun tap_run :: "(world \<times> tap_event) list \<Rightarrow> tap_manager \<Rightarrow> tap_manager" where
  "tap_run [] s = s"
| "tap_run ((w, e) # evs) s = tap_run evs (tap_step w e s)"

section \<open>Properties of states, and example inputs\<close>

text \<open>The invariant of the specification on a progress record, and its step-3 part.\<close>

definition progress_ok :: "progress \<Rightarrow> bool" where
  "progress_ok p = (passwordlessEnabled p \<longrightarrow> step1 p \<and> step2 p \<and> step3 p)"

definition progress_step3 :: "progress \<Rightarrow> bool" where
  "progress_step3 p = (passwordlessEnabled p \<longrightarrow> step3 p)"

text \<open>A property \<open>P\<close> holds of the progress in memory and of the persisted copy, if any.\<close>

definition wizard_holds :: "(progress \<Rightarrow> bool) \<Rightarrow> wizard \<Rightarrow> bool" where
  "wizard_holds P s =
     (P (userProgress s) \<and>
      (case progressStorage s of Saved p \<Rightarrow> P p | Absent \<Rightarrow> True | Corrupt \<Rightarrow> True))"

text \<open>
  Along a run, every \<^verbatim>\<open>validateSetup\<close> that completes starts in a state where steps 1
  and 2 are already done.
\<close>

fun setup_in_order :: "(world \<times> wizard_event) list \<Rightarrow> wizard \<Rightarrow> bool" where
  "setup_in_order [] s = True"
| "setup_in_order ((w, e) # evs) s =
     ((if e = ValidateSetup \<and> stepActionCompletes w
       then step1 (userProgress s) \<and> step2 (userProgress s)
       else True) \<and>
      setup_in_order evs (wizard_step w e s))"

text \<open>The history in memory and the persisted copy hold at most ten entries.\<close>

definition history_capped :: "tap_manager \<Rightarrow> bool" where
  "history_capped s =
     (length (tapHistory s) \<le> 10 \<and>
      (case historyStorage s of Saved h \<Rightarrow> length h \<le> 10 | Absent \<Rightarrow> True | Corrupt \<Rightarrow> True))"

text \<open>An authenticated session, a platform-biometric method, and a world that answers well.\<close>

definition example_auth :: auth where
  "example_auth =
     \<lparr>msalInstance = True, currentUser = Some \<lparr>username = ''ana@example.org''\<rparr>,
      isAuthenticated = True\<rparr>"

definition example_method :: auth_method where
  "example_method =
     \<lparr>odata_type = ''#microsoft.graph.windowsHelloForBusinessAuthenticationMethod'',
      method_id = ''m1''\<rparr>"

definition example_result :: tap_result where
  "example_result =
     \<lparr>res_id = ''tap-1'', res_temporaryAccessPass = ''S3cret'',
      res_createdDateTime = Some 1000000, res_lifetimeInMinutes = 1,
      res_isUsableOnce = True\<rparr>"

definition example_world :: world where
  "example_world =
     \<lparr>authManager = Some example_auth,
      acquireTokenSilent = Inr ''token'',
      acquireTokenRedirect = Inl (Error ''not called''),
      fetchMethods =
        Inr \<lparr>ok = True, status = 200, statusText = ''OK'', json = Inr (Some [])\<rparr>,
      postTAP =
        (\<lambda>b. Inr \<lparr>ok = True, status = 201, statusText = ''Created'',
                  json = Inr (ResultBody example_result)\<rparr>),
      deleteTAPMethod =
        (\<lambda>i. Inr \<lparr>ok = True, status = 204, statusText = ''No Content'',
                  json = Inl (SyntaxError ''Unexpected end of JSON input'')\<rparr>),
      now = 1000500,
      hasCountdownElement = True,
      storageWritable = True,
      stepActionCompletes = True\<rparr>"

text \<open>The same world, whose create call answers 400 with an error message.\<close>

definition quota_world :: world where
  "quota_world =
     example_world
       \<lparr>postTAP :=
          (\<lambda>b. Inr \<lparr>ok = False, status = 400, statusText = ''Bad Request'',
                    json = Inr (ErrorBody (Some ''quota exceeded''))\<rparr>)\<rparr>"

text \<open>The same world 61 seconds after the example pass was created.\<close>

definition later_world :: world where
  "later_world = example_world\<lparr>now := 1061000\<rparr>"

text \<open>The same world, whose methods call answers with one platform-biometric method.\<close>

definition biometric_world :: world where
  "biometric_world =
     example_world
       \<lparr>fetchMethods :=
          Inr \<lparr>ok = True, status = 200, statusText = ''OK'',
               json = Inr (Some [example_method])\<rparr>\<rparr>"

text \<open>An example pass, and a history of ten passes with distinct identifiers.\<close>

definition example_tap :: "string \<Rightarrow> tap" where
  "example_tap i =
     \<lparr>tap_id = i, temporaryAccessPass = ''S3cret'', createdDateTime = Some 1000000,
      lifetimeInMinutes = 1, isUsableOnce = True, expiresDateTime = 1060000,
      createdBy = ''ana@example.org''\<rparr>"

definition ten_taps :: "tap list" where
  "ten_taps =
     map example_tap [''a'', ''b'', ''c'', ''d'', ''e'', ''f'', ''g'', ''h'', ''i'', ''j'']"

text \<open>The same world, whose delete call answers that the pass does not exist.\<close>

definition not_found_world :: world where
  "not_found_world =
     example_world
       \<lparr>deleteTAPMethod :=
          (\<lambda>i. Inr \<lparr>ok = False, status = 404, statusText = ''Not Found'',
                    json = Inr ()\<rparr>)\<rparr>"

definition example_config :: tap_config where
  "example_config = \<lparr>cfg_lifetimeInMinutes = Some 1, cfg_isUsableOnce = Some True\<rparr>"

text \<open>A user who walks through the three steps, one call of \<^verbatim>\<open>nextStep\<close> at a time.\<close>

definition complete_run :: "(world \<times> wizard_event) list" where
  "complete_run =
     [(example_world, VerifyRequirements),
      (example_world, NextStep), (example_world, NextStepResumes),
      (example_world, SetupAuthenticationMethods),
      (example_world, NextStep), (example_world, NextStepResumes),
      (example_world, ValidateSetup), (example_world, CompletionTimer)]"

text \<open>
  A wizard at step 1 with step 1 done and step 2 not done, and a wizard at step 2 with
  steps 1 and 2 done; two and three calls of \<^verbatim>\<open>nextStep\<close> made in one turn, which
  resume afterwards in the order they were made.
\<close>

definition at_step1 :: wizard where
  "at_step1 = wizard_run [(example_world, VerifyRequirements)] (constructor Absent)"

definition at_step2 :: wizard where
  "at_step2 =
     wizard_run
       [(example_world, VerifyRequirements),
        (example_world, NextStep), (example_world, NextStepResumes),
        (example_world, SetupAuthenticationMethods)]
       (constructor Absent)"

definition two_calls :: "(world \<times> wizard_event) list" where
  "two_calls =
     [(example_world, NextStep), (example_world, NextStep),
      (example_world, NextStepResumes), (example_world, NextStepResumes)]"

definition three_calls :: "(world \<times> wizard_event) list" where
  "three_calls =
     [(example_world, NextStep), (example_world, NextStep), (example_world, NextStep),
      (example_world, NextStepResumes), (example_world, NextStepResumes),
      (example_world, NextStepResumes)]"

text \<open>
  A world whose create call answers with a pass that repeats the two settings of the
  request body it was sent.
\<close>

definition echo_world :: world where
  "echo_world =
     example_world
       \<lparr>postTAP :=
          (\<lambda>b. Inr \<lparr>ok = True, status = 201, statusText = ''Created'',
                    json = Inr (ResultBody (example_result
                             \<lparr>res_lifetimeInMinutes := rb_lifetimeInMinutes b,
                              res_isUsableOnce := rb_isUsableOnce b\<rparr>))\<rparr>)\<rparr>"

text \<open>
  A manager whose history is full, a world whose methods call is rejected, and a run of
  the pass page.
\<close>

definition full_manager :: tap_manager where
  "full_manager = (newTAPManager Absent)\<lparr>tapHistory := ten_taps\<rparr>"

definition offline_world :: world where
  "offline_world = example_world\<lparr>fetchMethods := Inl (TypeError ''Failed to fetch'')\<rparr>"

definition pass_events :: "(world \<times> tap_event) list" where
  "pass_events =
     [(example_world, GenerateTAP example_config), (not_found_world, DeleteTAP ''a''),
      (example_world, DeleteTAP ''b''), (later_world, IntervalFires 1), (example_world, ReloadTAP)]"

text \<open>
  The same world, whose create call answers with a second pass that lives for an hour,
  and the manager after the example pass and then this one were generated.
\<close>

definition second_world :: world where
  "second_world =
     example_world
       \<lparr>postTAP :=
          (\<lambda>b. Inr \<lparr>ok = True, status = 201, statusText = ''Created'',
                    json = Inr (ResultBody (example_result
                             \<lparr>res_id := ''tap-2'', res_lifetimeInMinutes := 60\<rparr>))\<rparr>)\<rparr>"

definition two_passes :: tap_manager where
  "two_passes =
     snd (generateTAP second_world example_config
            (snd (generateTAP example_world example_config (newTAPManager Absent))))"

section \<open>Unfolding the model on concrete inputs\<close>

lemmas wizard_defs =
  constructor_def loadProgress_def getDefaultProgress_def saveProgress_def nextStep_def
  nextStep_resumes_def   prevStep_def validateCurrentStep_def verifyRequirements_def setupAuthenticationMethods_def
  validateSetup_def completionTimer_def initializeApp_def loadUserProgress_def

lemmas example_defs =
  example_world_def example_auth_def example_method_def example_result_def example_config_def
  example_tap_def quota_world_def later_world_def biometric_world_def not_found_world_def

lemmas auth_defs =
  getAccessToken_def checkPasswordlessStatus_def statusFailed_def isPasswordlessMethod_def

lemmas tap_defs =
  newTAPManager_def tapConfig_def requestBody_def validTime_def getTime_def toISOString_def
  errorMessage_def slice_from_end_def saveHistory_def addToHistory_def hideTAPDisplay_def
  updateCountdown_def startTAPCountdown_def intervalFires_def generateTAP_def
  deleteTAP_try_def deleteTAP_def

section \<open>The wizard: cursor and progress\<close>

lemma saveProgress_fields:
  "currentStep (saveProgress w s) = currentStep s"
  "totalSteps (saveProgress w s) = totalSteps s"
  "userProgress (saveProgress w s) = userProgress s"
  "completionTimers (saveProgress w s) = completionTimers s"
  by (simp_all add: saveProgress_def)

lemma nextStep_fields:
  "currentStep (nextStep s) = currentStep s"
  "totalSteps (nextStep s) = totalSteps s"
  "userProgress (nextStep s) = userProgress s"
  "completionTimers (nextStep s) = completionTimers s"
  "progressStorage (nextStep s) = progressStorage s"
  by (simp_all add: nextStep_def)

text \<open>
  A call of \<^verbatim>\<open>nextStep\<close> that resumes before another one is made does what its guard
  intends: with the cursor between 1 and \<open>totalSteps + 1\<close> it changes nothing when the
  flag of the current step is false, moves the cursor by one when it moves it, and stays
  at or below \<open>totalSteps\<close> when it started there; \<^verbatim>\<open>prevStep\<close> never goes below 1.
\<close>

lemma nextStep_alone:
  assumes "pendingNextSteps s = []"
    and "1 \<le> currentStep s" and "currentStep s \<le> totalSteps s + 1"
  shows "(\<not> validateCurrentStep s \<longrightarrow> nextStep_resumes w (nextStep s) = s) \<and>
         (currentStep (nextStep_resumes w (nextStep s)) \<noteq> currentStep s \<longrightarrow>
            validateCurrentStep s \<and>
            currentStep (nextStep_resumes w (nextStep s)) = currentStep s + 1 \<and>
            currentStep (nextStep_resumes w (nextStep s)) \<le> totalSteps s) \<and>
         1 \<le> currentStep (prevStep s) \<and>
         currentStep (nextStep_resumes w (nextStep s)) \<le> totalSteps s + 1"
  using assms
  by (auto simp: nextStep_def nextStep_resumes_def prevStep_def saveProgress_fields Let_def)

text \<open>
  Claim C7. The claim fails on the code when calls of \<^verbatim>\<open>nextStep\<close> overlap. At step 1
  with step 1 done and step 2 not done, two calls made in one turn both pass the test of
  the cursor and both read the flag of step 1; the first to resume moves the cursor to
  2, the second moves it on to 3, past step 2 whose flag is false. At step 2 with step 2
  done, three calls made in one turn leave the cursor at 5, beyond \<open>totalSteps + 1\<close>.
\<close>

theorem nextStep_overlapping_calls:
  "currentStep at_step1 = 1 \<and>
   pendingNextSteps at_step1 = [] \<and>
   step1 (userProgress at_step1) \<and>
   \<not> step2 (userProgress at_step1) \<and>
   currentStep (nextStep_resumes example_world (nextStep (nextStep at_step1))) = 2 \<and>
   currentStep
     (nextStep_resumes example_world
        (nextStep_resumes example_world (nextStep (nextStep at_step1)))) = 3 \<and>
   \<not> step2 (userProgress
     (nextStep_resumes example_world
        (nextStep_resumes example_world (nextStep (nextStep at_step1))))) \<and>
   wizard_run two_calls at_step1 =
     nextStep_resumes example_world
        (nextStep_resumes example_world (nextStep (nextStep at_step1))) \<and>
   currentStep at_step2 = 2 \<and>
   totalSteps at_step2 = 3 \<and>
   pendingNextSteps at_step2 = [] \<and>
   currentStep (wizard_run three_calls at_step2) = 5"
  by (simp add: at_step1_def at_step2_def two_calls_def three_calls_def wizard_defs
        example_world_def)

text \<open>
  Claim C10. The claim fails on the code when calls of \<^verbatim>\<open>nextStep\<close> overlap. At step 2
  with step 2 done, step 3 not done and no callback of \<^verbatim>\<open>validateSetup\<close> pending, two
  calls made in one turn both pass the test \<open>2 < 3\<close> before either increments, and the
  cursor ends at 4, the completion position, through \<^verbatim>\<open>nextStep\<close> alone.
\<close>

theorem nextStep_reaches_completion:
  "currentStep at_step2 = 2 \<and>
   totalSteps at_step2 = 3 \<and>
   completionTimers at_step2 = 0 \<and>
   \<not> step3 (userProgress at_step2) \<and>
   \<not> passwordlessEnabled (userProgress at_step2) \<and>
   currentStep (wizard_run two_calls at_step2) = 4 \<and>
   totalSteps (wizard_run two_calls at_step2) = 3 \<and>
   completionTimers (wizard_run two_calls at_step2) = 0 \<and>
   \<not> step3 (userProgress (wizard_run two_calls at_step2)) \<and>
   \<not> passwordlessEnabled (userProgress (wizard_run two_calls at_step2))"
  by (simp add: at_step2_def two_calls_def wizard_defs example_world_def)

lemma wizard_step_holds:
  assumes "wizard_holds P s"
    and "P getDefaultProgress"
    and "\<And>p. P p \<Longrightarrow> P (p\<lparr>step1 := True\<rparr>)"
    and "\<And>p. P p \<Longrightarrow> P (p\<lparr>step2 := True\<rparr>)"
    and "\<And>ms. P \<lparr>step1 = True, step2 = True, step3 = True, passwordlessEnabled = True, methods = ms\<rparr>"
    and "e = ValidateSetup \<and> stepActionCompletes w \<longrightarrow>
           P ((userProgress s)\<lparr>step3 := True, passwordlessEnabled := True\<rparr>)"
  shows "wizard_holds P (wizard_step w e s)"
proof (cases e)
  case NextStep
  with assms(1) show ?thesis
    by (auto simp: nextStep_def wizard_holds_def)
next
  case NextStepResumes
  with assms(1) show ?thesis
    by (auto simp: nextStep_resumes_def wizard_holds_def saveProgress_def Let_def
             split: list.splits)
next
  case PrevStep
  with assms(1) show ?thesis by (auto simp: prevStep_def wizard_holds_def)
next
  case VerifyRequirements
  with assms(1,3) show ?thesis
    by (auto simp: verifyRequirements_def wizard_holds_def saveProgress_def)
next
  case SetupAuthenticationMethods
  with assms(1,4) show ?thesis
    by (auto simp: setupAuthenticationMethods_def wizard_holds_def saveProgress_def)
next
  case ValidateSetup
  with assms(1,6) show ?thesis
    by (auto simp: validateSetup_def wizard_holds_def saveProgress_def)
next
  case CompletionTimer
  with assms(1) show ?thesis by (auto simp: completionTimer_def wizard_holds_def)
next
  case Reload
  with assms(1,2,5) show ?thesis
    by (auto simp: initializeApp_def loadUserProgress_def constructor_def loadProgress_def
                   wizard_holds_def Let_def split: option.splits stored.splits)
qed

lemma wizard_run_step3:
  "wizard_holds progress_step3 s \<Longrightarrow> wizard_holds progress_step3 (wizard_run evs s)"
proof (induction evs arbitrary: s)
  case Nil
  then show ?case by simp
next
  case (Cons ev evs)
  obtain w e where ev: "ev = (w, e)" by (cases ev)
  have "wizard_holds progress_step3 (wizard_step w e s)"
    by (rule wizard_step_holds [OF Cons.prems])
       (simp_all add: progress_step3_def getDefaultProgress_def)
  then show ?case using Cons.IH by (simp add: ev)
qed

lemma wizard_run_ok:
  "wizard_holds progress_ok s \<Longrightarrow> setup_in_order evs s \<Longrightarrow>
   wizard_holds progress_ok (wizard_run evs s)"
proof (induction evs arbitrary: s)
  case Nil
  then show ?case by simp
next
  case (Cons ev evs)
  obtain w e where ev: "ev = (w, e)" by (cases ev)
  from Cons.prems(2) have g: "e = ValidateSetup \<and> stepActionCompletes w \<longrightarrow>
      step1 (userProgress s) \<and> step2 (userProgress s)"
    and rest: "setup_in_order evs (wizard_step w e s)"
    by (auto simp: ev split: if_splits)
  have "wizard_holds progress_ok (wizard_step w e s)"
    by (rule wizard_step_holds [OF Cons.prems(1)])
       (use g in \<open>simp_all add: progress_ok_def getDefaultProgress_def\<close>)
  then show ?case using Cons.IH rest by (simp add: ev)
qed

text \<open>
  Claim C1, as amended. Along every run of wizard events (navigation, the three step
  handlers, the completion callback, a reload that reads the persisted progress or
  short-circuits), from a state whose progress and persisted copy satisfy it:
  \<open>passwordlessEnabled\<close> implies \<open>step3\<close>; and \<open>passwordlessEnabled\<close> implies
  \<open>step1\<close>, \<open>step2\<close> and \<open>step3\<close> provided every \<^verbatim>\<open>validateSetup\<close> that completes
  starts in a state where \<open>step1\<close> and \<open>step2\<close> are already set. The handler itself
  does not look at them.
\<close>

theorem progress_invariant:
  "(wizard_holds progress_step3 s \<longrightarrow> wizard_holds progress_step3 (wizard_run evs s)) \<and>
   (wizard_holds progress_ok s \<and> setup_in_order evs s \<longrightarrow>
      wizard_holds progress_ok (wizard_run evs s))"
  using wizard_run_step3 wizard_run_ok by blast

theorem progress_invariant_witness:
  "wizard_holds progress_step3 (constructor Absent) \<and>
   wizard_holds progress_ok (constructor Absent) \<and>
   setup_in_order complete_run (constructor Absent) \<and>
   passwordlessEnabled (userProgress (wizard_run complete_run (constructor Absent))) \<and>
   currentStep (wizard_run complete_run (constructor Absent)) = 4 \<and>
   wizard_holds progress_step3 (wizard_run complete_run (constructor Absent)) \<and>
   wizard_holds progress_ok (wizard_run complete_run (constructor Absent))"
  using progress_invariant [where s = "constructor Absent" and evs = complete_run]
  by (simp add: complete_run_def wizard_defs example_defs wizard_holds_def progress_ok_def
        progress_step3_def)

text \<open>
  As first stated, for any sequence of the handlers, the property fails: on a fresh
  wizard \<^verbatim>\<open>validateSetup\<close> alone sets \<open>passwordlessEnabled\<close> and leaves \<open>step1\<close> and
  \<open>step2\<close> false.
\<close>

theorem validateSetup_breaks_invariant:
  "passwordlessEnabled
     (userProgress (wizard_run [(example_world, ValidateSetup)] (constructor Absent))) \<and>
   \<not> step1 (userProgress (wizard_run [(example_world, ValidateSetup)] (constructor Absent))) \<and>
   \<not> step2 (userProgress (wizard_run [(example_world, ValidateSetup)] (constructor Absent))) \<and>
   \<not> progress_ok
       (userProgress (wizard_run [(example_world, ValidateSetup)] (constructor Absent)))"
  by (simp add: progress_ok_def validateSetup_def saveProgress_def constructor_def loadProgress_def
        getDefaultProgress_def example_world_def)

section \<open>The pass manager: the bounded history\<close>

lemma hideTAPDisplay_fields:
  "tapHistory (hideTAPDisplay s) = tapHistory s"
  "historyStorage (hideTAPDisplay s) = historyStorage s"
  "currentTAP (hideTAPDisplay s) = None"
  "currentCountdownInterval (hideTAPDisplay s) = None"
  by (simp_all add: hideTAPDisplay_def split: option.splits)

lemma updateCountdown_fields:
  "tapHistory (updateCountdown x w s) = tapHistory s"
  "historyStorage (updateCountdown x w s) = historyStorage s"
  by (simp_all add: updateCountdown_def hideTAPDisplay_fields Let_def)

lemma startTAPCountdown_fields:
  "tapHistory (startTAPCountdown w t s) = tapHistory s"
  "historyStorage (startTAPCountdown w t s) = historyStorage s"
  by (simp_all add: startTAPCountdown_def updateCountdown_fields Let_def)

lemma intervalFires_fields:
  "tapHistory (intervalFires w i s) = tapHistory s"
  "historyStorage (intervalFires w i s) = historyStorage s"
  by (simp_all add: intervalFires_def updateCountdown_fields split: option.splits)

lemma addToHistory_history:
  "tapHistory (addToHistory w t s) =
     (if length (tapHistory s) \<ge> 10 then slice_from_end 9 (tapHistory s) else tapHistory s) @ [t]"
  by (simp add: addToHistory_def saveHistory_def Let_def)

lemma addToHistory_storage:
  "historyStorage (addToHistory w t s) =
     (if storageWritable w then Saved (tapHistory (addToHistory w t s)) else historyStorage s)"
  by (simp add: addToHistory_def saveHistory_def Let_def)

lemma addToHistory_length: "length (tapHistory (addToHistory w t s)) \<le> 10"
  by (simp add: addToHistory_history slice_from_end_def)

lemma slice_from_end_ten:
  "length xs = 10 \<Longrightarrow> slice_from_end 9 xs = tl xs"
  by (simp add: slice_from_end_def drop_Suc)

lemma addToHistory_capped: "history_capped s \<Longrightarrow> history_capped (addToHistory w t s)"
  using addToHistory_length [of w t s]
  by (simp add: history_capped_def addToHistory_storage)

lemma generateTAP_cases:
  "snd (generateTAP w config s) = s \<or>
   (\<exists>t. snd (generateTAP w config s) =
          startTAPCountdown w t (addToHistory w t (s\<lparr>currentTAP := Some t\<rparr>)))"
  by (auto simp: generateTAP_def Let_def split: option.splits sum.splits tap_body.splits)

lemma generateTAP_capped: "history_capped s \<Longrightarrow> history_capped (snd (generateTAP w config s))"
proof -
  assume h: "history_capped s"
  then have "history_capped (s\<lparr>currentTAP := Some t\<rparr>)" for t
    by (simp add: history_capped_def)
  then have "history_capped (startTAPCountdown w t (addToHistory w t (s\<lparr>currentTAP := Some t\<rparr>)))" for t
    using addToHistory_capped [of "s\<lparr>currentTAP := Some t\<rparr>" w t]
    by (simp add: history_capped_def startTAPCountdown_fields)
  with h generateTAP_cases [of w config s] show ?thesis by auto
qed

lemma deleteTAP_cases:
  "snd (deleteTAP w tapId s) = s \<or>
   snd (deleteTAP w tapId s) =
     saveHistory w (s\<lparr>tapHistory := filter (\<lambda>tap. tap_id tap \<noteq> tapId) (tapHistory s)\<rparr>)"
  by (auto simp: deleteTAP_def deleteTAP_try_def split: option.splits sum.splits)

lemma deleteTAP_capped: "history_capped s \<Longrightarrow> history_capped (snd (deleteTAP w tapId s))"
proof -
  assume h: "history_capped s"
  from h have "length (tapHistory s) \<le> 10"
    by (simp add: history_capped_def)
  then have "length (filter (\<lambda>tap. tap_id tap \<noteq> tapId) (tapHistory s)) \<le> 10"
    by (rule le_trans [OF length_filter_le])
  with h have "history_capped
     (saveHistory w (s\<lparr>tapHistory := filter (\<lambda>tap. tap_id tap \<noteq> tapId) (tapHistory s)\<rparr>))"
    by (simp add: history_capped_def saveHistory_def)
  with h deleteTAP_cases [of w tapId s] show ?thesis by auto
qed

lemma tap_step_capped: "history_capped s \<Longrightarrow> history_capped (tap_step w e s)"
proof (cases e)
  case (GenerateTAP config)
  assume "history_capped s"
  then show ?thesis using GenerateTAP by (simp add: generateTAP_capped)
next
  case (DeleteTAP tapId)
  assume "history_capped s"
  then show ?thesis using DeleteTAP by (simp add: deleteTAP_capped)
next
  case (IntervalFires i)
  assume "history_capped s"
  then show ?thesis using IntervalFires by (simp add: history_capped_def intervalFires_fields)
next
  case HideTAPDisplay
  assume "history_capped s"
  then show ?thesis using HideTAPDisplay by (simp add: history_capped_def hideTAPDisplay_fields)
next
  case ReloadTAP
  assume "history_capped s"
  then show ?thesis using ReloadTAP
    by (simp add: history_capped_def newTAPManager_def split: stored.splits)
qed

lemma tap_run_capped: "history_capped s \<Longrightarrow> history_capped (tap_run evs s)"
proof (induction evs arbitrary: s)
  case Nil
  then show ?case by simp
next
  case (Cons ev evs)
  obtain w e where ev: "ev = (w, e)" by (cases ev)
  from Cons.prems have "history_capped (tap_step w e s)" by (rule tap_step_capped)
  then show ?case using Cons.IH by (simp add: ev)
qed

text \<open>
  Claim C2. After \<^verbatim>\<open>addToHistory\<close> the history has at most ten entries, whatever it
  was before; a history (and persisted copy) of at most ten entries stays so along every
  run of the pass page's events; and on a history of exactly ten entries \<^verbatim>\<open>addToHistory\<close>
  drops the first (oldest) entry, keeps the other nine in their order and puts the new
  entry last, which makes ten again.
\<close>

theorem history_never_exceeds_ten:
  "length (tapHistory (addToHistory w t s)) \<le> 10 \<and>
   (history_capped s \<longrightarrow> history_capped (tap_run evs s)) \<and>
   (length (tapHistory s) = 10 \<longrightarrow>
      tapHistory (addToHistory w t s) = tl (tapHistory s) @ [t] \<and>
      length (tapHistory (addToHistory w t s)) = 10)"
proof -
  have a: "length (tapHistory (addToHistory w t s)) \<le> 10"
    by (rule addToHistory_length)
  have b: "history_capped s \<longrightarrow> history_capped (tap_run evs s)"
    using tap_run_capped by blast
  have c: "length (tapHistory s) = 10 \<longrightarrow>
      tapHistory (addToHistory w t s) = tl (tapHistory s) @ [t] \<and>
      length (tapHistory (addToHistory w t s)) = 10"
    by (simp add: addToHistory_history slice_from_end_ten)
  from a b c show ?thesis by blast
qed

theorem history_never_exceeds_ten_witness:
  "length (tapHistory full_manager) = 10 \<and>
   history_capped full_manager \<and>
   map tap_id (tapHistory (addToHistory example_world (example_tap ''k'') full_manager)) =
     [''b'', ''c'', ''d'', ''e'', ''f'', ''g'', ''h'', ''i'', ''j'', ''k''] \<and>
   tapHistory (addToHistory example_world (example_tap ''k'') full_manager) =
     tl ten_taps @ [example_tap ''k''] \<and>
   history_capped (tap_run pass_events full_manager)"
proof -
  have h: "tapHistory full_manager = ten_taps"
    by (simp add: full_manager_def)
  have len: "length (tapHistory full_manager) = 10"
    by (simp add: h ten_taps_def)
  have cap: "history_capped full_manager"
    by (simp add: history_capped_def len) (simp add: full_manager_def newTAPManager_def)
  note t = history_never_exceeds_ten
    [where w = example_world and t = "example_tap ''k''" and s = full_manager and evs = pass_events]
  from t len h
  have e: "tapHistory (addToHistory example_world (example_tap ''k'') full_manager) =
      tl ten_taps @ [example_tap ''k'']"
    by simp
  then have m: "map tap_id (tapHistory (addToHistory example_world (example_tap ''k'') full_manager)) =
      [''b'', ''c'', ''d'', ''e'', ''f'', ''g'', ''h'', ''i'', ''j'', ''k'']"
    by (simp add: ten_taps_def example_tap_def)
  from t cap have r: "history_capped (tap_run pass_events full_manager)"
    by blast
  from len cap m e r show ?thesis by blast
qed

section \<open>The pass manager: generation\<close>

lemma postTAP_update_elsewhere:
  "getAccessToken (w\<lparr>postTAP := f\<rparr>) a = getAccessToken w a"
  "addToHistory (w\<lparr>postTAP := f\<rparr>) t s = addToHistory w t s"
  "startTAPCountdown (w\<lparr>postTAP := f\<rparr>) t s = startTAPCountdown w t s"
  by (simp_all add: getAccessToken_def addToHistory_def saveHistory_def startTAPCountdown_def
        updateCountdown_def split: sum.splits js_error.splits)

lemma generateTAP_posts_merged_body:
  "f (requestBody (tapConfig config)) = postTAP w (requestBody (tapConfig config)) \<Longrightarrow>
   generateTAP (w\<lparr>postTAP := f\<rparr>) config s = generateTAP w config s"
  by (simp add: generateTAP_def postTAP_update_elsewhere
        split: option.splits sum.splits tap_body.splits)

text \<open>
  Claim C5. The merged settings carry the supplied \<^verbatim>\<open>lifetimeInMinutes\<close> and
  \<^verbatim>\<open>isUsableOnce\<close> when the configuration has them (0 and false included) and the
  defaults 60 and false only for an absent field. With an authenticated session and a
  token, \<^verbatim>\<open>generateTAP\<close> sends exactly these in the body of its create call, and its
  outcome is what the remote answers to that body: the rejection, the error built from
  a non-success answer, or the pass built from the created record.
\<close>

theorem tapConfig_keeps_supplied:
  "rb_lifetimeInMinutes (requestBody (tapConfig config)) =
     (case cfg_lifetimeInMinutes config of Some v \<Rightarrow> v | None \<Rightarrow> 60) \<and>
   rb_isUsableOnce (requestBody (tapConfig config)) =
     (case cfg_isUsableOnce config of Some b \<Rightarrow> b | None \<Rightarrow> False) \<and>
   rb_lifetimeInMinutes
     (requestBody (tapConfig \<lparr>cfg_lifetimeInMinutes = Some 0, cfg_isUsableOnce = Some False\<rparr>)) = 0 \<and>
   (authManager w = Some a \<and> isAuthenticated a \<and> getAccessToken w a = Inr token \<and>
    postTAP w
      \<lparr>rb_odata_type = ''#microsoft.graph.temporaryAccessPassAuthenticationMethod'',
       rb_lifetimeInMinutes =
         (case cfg_lifetimeInMinutes config of Some v \<Rightarrow> v | None \<Rightarrow> 60),
       rb_isUsableOnce =
         (case cfg_isUsableOnce config of Some b \<Rightarrow> b | None \<Rightarrow> False)\<rparr> = answer \<longrightarrow>
      (\<forall>e. answer = Inl e \<longrightarrow> generateTAP w config s = (Inl e, s)) \<and>
      (\<forall>r errorData. answer = Inr r \<and> \<not> ok r \<and> json r = Inr errorData \<longrightarrow>
         generateTAP w config s =
           (Inl (Error (''Error Graph API: '' @ errorMessage errorData (statusText r))), s)) \<and>
      (\<forall>r result created user.
         answer = Inr r \<and> ok r \<and> json r = Inr (ResultBody result) \<and>
         res_createdDateTime result = Some created \<and> validTime created \<and>
         validTime (created + res_lifetimeInMinutes result * 60000) \<and>
         currentUser a = Some user \<longrightarrow>
         fst (generateTAP w config s) =
           Inr \<lparr>tap_id = res_id result,
                temporaryAccessPass = res_temporaryAccessPass result,
                createdDateTime = res_createdDateTime result,
                lifetimeInMinutes = res_lifetimeInMinutes result,
                isUsableOnce = res_isUsableOnce result,
                expiresDateTime = created + res_lifetimeInMinutes result * 60000,
                createdBy = username user\<rparr>))"
proof -
  have a: "rb_lifetimeInMinutes (requestBody (tapConfig config)) =
     (case cfg_lifetimeInMinutes config of Some v \<Rightarrow> v | None \<Rightarrow> 60)"
    by (simp add: requestBody_def tapConfig_def split: option.splits)
  have b: "rb_isUsableOnce (requestBody (tapConfig config)) =
     (case cfg_isUsableOnce config of Some b \<Rightarrow> b | None \<Rightarrow> False)"
    by (simp add: requestBody_def tapConfig_def split: option.splits)
  have c: "rb_lifetimeInMinutes
     (requestBody (tapConfig \<lparr>cfg_lifetimeInMinutes = Some 0, cfg_isUsableOnce = Some False\<rparr>)) = 0"
    by (simp add: requestBody_def tapConfig_def)
  have body: "requestBody (tapConfig config) =
      \<lparr>rb_odata_type = ''#microsoft.graph.temporaryAccessPassAuthenticationMethod'',
       rb_lifetimeInMinutes =
         (case cfg_lifetimeInMinutes config of Some v \<Rightarrow> v | None \<Rightarrow> 60),
       rb_isUsableOnce =
         (case cfg_isUsableOnce config of Some b \<Rightarrow> b | None \<Rightarrow> False)\<rparr>"
    using a b by (simp add: requestBody_def)
  have d: "authManager w = Some a \<and> isAuthenticated a \<and> getAccessToken w a = Inr token \<and>
      postTAP w (requestBody (tapConfig config)) = answer \<longrightarrow>
      (\<forall>e. answer = Inl e \<longrightarrow> generateTAP w config s = (Inl e, s)) \<and>
      (\<forall>r errorData. answer = Inr r \<and> \<not> ok r \<and> json r = Inr errorData \<longrightarrow>
         generateTAP w config s =
           (Inl (Error (''Error Graph API: '' @ errorMessage errorData (statusText r))), s)) \<and>
      (\<forall>r result created user.
         answer = Inr r \<and> ok r \<and> json r = Inr (ResultBody result) \<and>
         res_createdDateTime result = Some created \<and> validTime created \<and>
         validTime (created + res_lifetimeInMinutes result * 60000) \<and>
         currentUser a = Some user \<longrightarrow>
         fst (generateTAP w config s) =
           Inr \<lparr>tap_id = res_id result,
                temporaryAccessPass = res_temporaryAccessPass result,
                createdDateTime = res_createdDateTime result,
                lifetimeInMinutes = res_lifetimeInMinutes result,
                isUsableOnce = res_isUsableOnce result,
                expiresDateTime = created + res_lifetimeInMinutes result * 60000,
                createdBy = username user\<rparr>)"
    by (auto simp: generateTAP_def toISOString_def getTime_def Let_def)
  from a b c d [unfolded body] show ?thesis by blast
qed

theorem tapConfig_keeps_supplied_witness:
  "authManager echo_world = Some example_auth \<and> isAuthenticated example_auth \<and>
   getAccessToken echo_world example_auth = Inr ''token'' \<and>
   map_sum message lifetimeInMinutes
     (fst (generateTAP echo_world
        \<lparr>cfg_lifetimeInMinutes = Some 0, cfg_isUsableOnce = Some False\<rparr> (newTAPManager Absent))) =
     Inr 0 \<and>
   map_sum message isUsableOnce
     (fst (generateTAP echo_world
        \<lparr>cfg_lifetimeInMinutes = Some 0, cfg_isUsableOnce = Some False\<rparr> (newTAPManager Absent))) =
     Inr False \<and>
   map_sum message lifetimeInMinutes
     (fst (generateTAP echo_world
        \<lparr>cfg_lifetimeInMinutes = Some 15, cfg_isUsableOnce = Some True\<rparr> (newTAPManager Absent))) =
     Inr 15 \<and>
   map_sum message isUsableOnce
     (fst (generateTAP echo_world
        \<lparr>cfg_lifetimeInMinutes = Some 15, cfg_isUsableOnce = Some True\<rparr> (newTAPManager Absent))) =
     Inr True \<and>
   map_sum message lifetimeInMinutes
     (fst (generateTAP echo_world
        \<lparr>cfg_lifetimeInMinutes = None, cfg_isUsableOnce = None\<rparr> (newTAPManager Absent))) =
     Inr 60 \<and>
   map_sum message isUsableOnce
     (fst (generateTAP echo_world
        \<lparr>cfg_lifetimeInMinutes = None, cfg_isUsableOnce = None\<rparr> (newTAPManager Absent))) =
     Inr False"
proof -
  have auth: "authManager echo_world = Some example_auth \<and> isAuthenticated example_auth \<and>
      getAccessToken echo_world example_auth = Inr ''token'' \<and>
      currentUser example_auth = Some \<lparr>username = ''ana@example.org''\<rparr>"
    by (simp add: echo_world_def example_defs getAccessToken_def)
  have echo: "postTAP echo_world b =
      Inr \<lparr>ok = True, status = 201, statusText = ''Created'',
           json = Inr (ResultBody (example_result
                    \<lparr>res_lifetimeInMinutes := rb_lifetimeInMinutes b,
                     res_isUsableOnce := rb_isUsableOnce b\<rparr>))\<rparr>" for b
    by (simp add: echo_world_def example_world_def)
  have created: "res_createdDateTime (example_result\<lparr>res_lifetimeInMinutes := l, res_isUsableOnce := u\<rparr>)
      = Some 1000000" for l u
    by (simp add: example_result_def)
  have zero: "fst (generateTAP echo_world
        \<lparr>cfg_lifetimeInMinutes = Some 0, cfg_isUsableOnce = Some False\<rparr> (newTAPManager Absent)) =
      Inr \<lparr>tap_id = ''tap-1'', temporaryAccessPass = ''S3cret'', createdDateTime = Some 1000000,
           lifetimeInMinutes = 0, isUsableOnce = False, expiresDateTime = 1000000,
           createdBy = ''ana@example.org''\<rparr>"
    using tapConfig_keeps_supplied
      [where w = echo_world and a = example_auth and token = "''token''"
         and s = "newTAPManager Absent"
         and config = "\<lparr>cfg_lifetimeInMinutes = Some 0, cfg_isUsableOnce = Some False\<rparr>"
         and answer = "postTAP echo_world
            \<lparr>rb_odata_type = ''#microsoft.graph.temporaryAccessPassAuthenticationMethod'',
             rb_lifetimeInMinutes = 0, rb_isUsableOnce = False\<rparr>"]
      auth
    by (simp add: echo created validTime_def example_result_def)
  have some: "fst (generateTAP echo_world
        \<lparr>cfg_lifetimeInMinutes = Some 15, cfg_isUsableOnce = Some True\<rparr> (newTAPManager Absent)) =
      Inr \<lparr>tap_id = ''tap-1'', temporaryAccessPass = ''S3cret'', createdDateTime = Some 1000000,
           lifetimeInMinutes = 15, isUsableOnce = True, expiresDateTime = 1900000,
           createdBy = ''ana@example.org''\<rparr>"
    using tapConfig_keeps_supplied
      [where w = echo_world and a = example_auth and token = "''token''"
         and s = "newTAPManager Absent"
         and config = "\<lparr>cfg_lifetimeInMinutes = Some 15, cfg_isUsableOnce = Some True\<rparr>"
         and answer = "postTAP echo_world
            \<lparr>rb_odata_type = ''#microsoft.graph.temporaryAccessPassAuthenticationMethod'',
             rb_lifetimeInMinutes = 15, rb_isUsableOnce = True\<rparr>"]
      auth
    by (simp add: echo created validTime_def example_result_def)
  have none: "fst (generateTAP echo_world
        \<lparr>cfg_lifetimeInMinutes = None, cfg_isUsableOnce = None\<rparr> (newTAPManager Absent)) =
      Inr \<lparr>tap_id = ''tap-1'', temporaryAccessPass = ''S3cret'', createdDateTime = Some 1000000,
           lifetimeInMinutes = 60, isUsableOnce = False, expiresDateTime = 4600000,
           createdBy = ''ana@example.org''\<rparr>"
    using tapConfig_keeps_supplied
      [where w = echo_world and a = example_auth and token = "''token''"
         and s = "newTAPManager Absent"
         and config = "\<lparr>cfg_lifetimeInMinutes = None, cfg_isUsableOnce = None\<rparr>"
         and answer = "postTAP echo_world
            \<lparr>rb_odata_type = ''#microsoft.graph.temporaryAccessPassAuthenticationMethod'',
             rb_lifetimeInMinutes = 60, rb_isUsableOnce = False\<rparr>"]
      auth
    by (simp add: echo created validTime_def example_result_def)
  from auth zero some none show ?thesis by simp
qed

lemma example_generation:
  "fst (generateTAP example_world example_config (newTAPManager Absent)) = Inr (example_tap ''tap-1'')"
  by (simp add: tap_defs example_defs getAccessToken_def Let_def)

text \<open>
  Claim C6. The pass that a successful \<^verbatim>\<open>generateTAP\<close> returns has a readable creation
  time, and its expiry is that time plus \<open>lifetimeInMinutes * 60\<close> seconds, in
  milliseconds.
\<close>

theorem expiresDateTime_exact:
  assumes "generateTAP w config s = (Inr t, s')"
  shows "\<exists>created. createdDateTime t = Some created \<and>
           expiresDateTime t = created + lifetimeInMinutes t * 60 * 1000"
  using assms
  by (auto simp: generateTAP_def toISOString_def getTime_def Let_def
           split: option.splits sum.splits tap_body.splits if_splits)

theorem expiresDateTime_exact_witness:
  "fst (generateTAP example_world example_config (newTAPManager Absent)) = Inr (example_tap ''tap-1'') \<and>
   createdDateTime (example_tap ''tap-1'') = Some 1000000 \<and>
   lifetimeInMinutes (example_tap ''tap-1'') = 1 \<and>
   expiresDateTime (example_tap ''tap-1'') = 1000000 + 1 * 60 * 1000"
proof -
  have g: "generateTAP example_world example_config (newTAPManager Absent) =
      (Inr (example_tap ''tap-1''),
       snd (generateTAP example_world example_config (newTAPManager Absent)))"
    using example_generation by (simp add: prod_eq_iff)
  from expiresDateTime_exact [OF g] example_generation show ?thesis
    by (simp add: example_tap_def)
qed

text \<open>
  Claim C3. With an authenticated session whose token was obtained, when the create call
  answers with a non-success status and a body whose error message is not empty,
  \<^verbatim>\<open>generateTAP\<close> fails with an error whose message is that message after the fixed
  prefix \<^verbatim>\<open>Error Graph API: \<close>, and the state of the manager (the current pass and the
  history among it) is what it was.
\<close>

theorem generateTAP_remote_error:
  assumes "authManager w = Some a" and "isAuthenticated a"
    and "getAccessToken w a = Inr token"
    and "postTAP w (requestBody (tapConfig config)) = Inr r"
    and "\<not> ok r" and "json r = Inr (ErrorBody (Some m))" and "m \<noteq> []"
  shows "generateTAP w config s = (Inl (Error (''Error Graph API: '' @ m)), s)"
  using assms by (simp add: generateTAP_def errorMessage_def)

theorem generateTAP_remote_error_witness:
  "authManager quota_world = Some example_auth \<and> isAuthenticated example_auth \<and>
   getAccessToken quota_world example_auth = Inr ''token'' \<and>
   generateTAP quota_world example_config (newTAPManager Absent) =
     (Inl (Error ''Error Graph API: quota exceeded''), newTAPManager Absent)"
  using generateTAP_remote_error
    [where w = quota_world and a = example_auth and token = "''token''"
       and config = example_config and m = "''quota exceeded''" and s = "newTAPManager Absent"
       and r = "\<lparr>ok = False, status = 400, statusText = ''Bad Request'',
                  json = Inr (ErrorBody (Some ''quota exceeded''))\<rparr>"]
  by (simp add: example_defs getAccessToken_def)

section \<open>The pass manager: deletion and expiry\<close>

text \<open>
  Claim C4, as amended. For an identifier that no entry of the local history carries,
  \<^verbatim>\<open>deleteTAP\<close> leaves the history and the current pass as they are and answers with
  a boolean, never an exception: \<^verbatim>\<open>true\<close> exactly when the session is authenticated,
  the token is obtained and the remote delete answers with a success status or 204, and
  \<^verbatim>\<open>false\<close> otherwise.
\<close>

theorem deleteTAP_unknown_id:
  assumes "tapId \<notin> tap_id ` set (tapHistory s)"
  shows "tapHistory (snd (deleteTAP w tapId s)) = tapHistory s \<and>
         currentTAP (snd (deleteTAP w tapId s)) = currentTAP s \<and>
         (fst (deleteTAP w tapId s) \<longleftrightarrow>
            (\<exists>a token r. authManager w = Some a \<and> isAuthenticated a \<and>
               getAccessToken w a = Inr token \<and> deleteTAPMethod w tapId = Inr r \<and>
               (ok r \<or> status r = 204)))"
proof -
  from assms have "filter (\<lambda>tap. tap_id tap \<noteq> tapId) (tapHistory s) = tapHistory s"
    by (auto simp: filter_id_conv)
  then show ?thesis
    by (auto simp: deleteTAP_def deleteTAP_try_def saveHistory_def
             split: option.splits sum.splits)
qed

theorem deleteTAP_unknown_id_witness:
  "''gone'' \<notin> tap_id ` set (tapHistory full_manager) \<and>
   tapHistory (snd (deleteTAP not_found_world ''gone'' full_manager)) = ten_taps \<and>
   \<not> fst (deleteTAP not_found_world ''gone'' full_manager) \<and>
   tapHistory (snd (deleteTAP example_world ''gone'' full_manager)) = ten_taps \<and>
   fst (deleteTAP example_world ''gone'' full_manager)"
  using deleteTAP_unknown_id [where tapId = "''gone''" and s = full_manager and w = not_found_world]
    deleteTAP_unknown_id [where tapId = "''gone''" and s = full_manager and w = example_world]
  by (simp add: full_manager_def ten_taps_def tap_defs example_defs getAccessToken_def)

text \<open>
  As first stated (the answer is \<^verbatim>\<open>false\<close> whenever the identifier is not in the local
  history) the property fails: with an empty history and a remote delete that answers
  204, \<^verbatim>\<open>deleteTAP\<close> answers \<^verbatim>\<open>true\<close>.
\<close>

theorem deleteTAP_unknown_id_succeeds:
  "''gone'' \<notin> tap_id ` set (tapHistory (newTAPManager Absent)) \<and>
   fst (deleteTAP example_world ''gone'' (newTAPManager Absent))"
  by (simp add: tap_defs example_defs getAccessToken_def)

text \<open>
  When the timer that the manager holds as its current countdown fires at or
  after the expiry it counts down to, the timer is cleared, the current countdown and the
  current pass become empty, and the history and its persisted copy are unchanged; a
  firing before the expiry changes nothing. A successful \<^verbatim>\<open>generateTAP\<close> on a page with
  the countdown element makes the timer of the new pass the current countdown, puts the
  pass last in the history and, when it has not expired yet, makes it the current pass.
\<close>

lemma countdown_expiry:
  "(currentCountdownInterval s = Some i \<and> intervals s i = Some expiresTime \<and>
      expiresTime - now w \<le> 0 \<longrightarrow>
      intervals (intervalFires w i s) i = None \<and>
      currentCountdownInterval (intervalFires w i s) = None \<and>
      currentTAP (intervalFires w i s) = None \<and>
      tapHistory (intervalFires w i s) = tapHistory s \<and>
      historyStorage (intervalFires w i s) = historyStorage s) \<and>
   (intervals s i = Some expiresTime \<and> 0 < expiresTime - now w \<longrightarrow> intervalFires w i s = s) \<and>
   (generateTAP w config s = (Inr t, s') \<and> hasCountdownElement w \<longrightarrow>
      (\<exists>j. currentCountdownInterval s' = Some j \<and> intervals s' j = Some (expiresDateTime t)) \<and>
      tapHistory s' \<noteq> [] \<and> last (tapHistory s') = t \<and>
      (now w < expiresDateTime t \<longrightarrow> currentTAP s' = Some t))"
proof -
  have a: "currentCountdownInterval s = Some i \<and> intervals s i = Some expiresTime \<and>
      expiresTime - now w \<le> 0 \<longrightarrow>
      intervals (intervalFires w i s) i = None \<and>
      currentCountdownInterval (intervalFires w i s) = None \<and>
      currentTAP (intervalFires w i s) = None \<and>
      tapHistory (intervalFires w i s) = tapHistory s \<and>
      historyStorage (intervalFires w i s) = historyStorage s"
    by (simp add: intervalFires_def updateCountdown_def hideTAPDisplay_def)
  have b: "intervals s i = Some expiresTime \<and> 0 < expiresTime - now w \<longrightarrow> intervalFires w i s = s"
    by (simp add: intervalFires_def updateCountdown_def)
  have c: "generateTAP w config s = (Inr t, s') \<and> hasCountdownElement w \<longrightarrow>
      (\<exists>j. currentCountdownInterval s' = Some j \<and> intervals s' j = Some (expiresDateTime t)) \<and>
      tapHistory s' \<noteq> [] \<and> last (tapHistory s') = t \<and>
      (now w < expiresDateTime t \<longrightarrow> currentTAP s' = Some t)"
  proof (intro impI, elim conjE)
    assume g: "generateTAP w config s = (Inr t, s')" and el: "hasCountdownElement w"
    from g have s': "s' = startTAPCountdown w t (addToHistory w t (s\<lparr>currentTAP := Some t\<rparr>))"
      by (auto simp: generateTAP_def Let_def split: option.splits sum.splits tap_body.splits if_splits)
    have h: "tapHistory s' = tapHistory (addToHistory w t (s\<lparr>currentTAP := Some t\<rparr>))"
      by (simp add: s' startTAPCountdown_fields)
    have cur: "currentTAP (addToHistory w t (s\<lparr>currentTAP := Some t\<rparr>)) = Some t"
      by (simp add: addToHistory_def saveHistory_def Let_def)
    from el have "\<exists>j. currentCountdownInterval s' = Some j \<and> intervals s' j = Some (expiresDateTime t)"
      by (simp add: s' startTAPCountdown_def Let_def)
    moreover have "tapHistory s' \<noteq> [] \<and> last (tapHistory s') = t"
      by (simp add: h addToHistory_history)
    moreover from el cur have "now w < expiresDateTime t \<longrightarrow> currentTAP s' = Some t"
      by (simp add: s' startTAPCountdown_def updateCountdown_def Let_def)
    ultimately show "(\<exists>j. currentCountdownInterval s' = Some j \<and> intervals s' j = Some (expiresDateTime t)) \<and>
      tapHistory s' \<noteq> [] \<and> last (tapHistory s') = t \<and>
      (now w < expiresDateTime t \<longrightarrow> currentTAP s' = Some t)"
      by blast
  qed
  from a b c show ?thesis by blast
qed

lemma countdown_expiry_example:
  "fst (generateTAP example_world example_config (newTAPManager Absent)) = Inr (example_tap ''tap-1'') \<and>
   hasCountdownElement example_world \<and>
   currentTAP (snd (generateTAP example_world example_config (newTAPManager Absent))) =
     Some (example_tap ''tap-1'') \<and>
   currentCountdownInterval (snd (generateTAP example_world example_config (newTAPManager Absent))) =
     Some 1 \<and>
   intervals (snd (generateTAP example_world example_config (newTAPManager Absent))) 1 = Some 1060000 \<and>
   1060000 - now later_world \<le> 0 \<and>
   intervals (intervalFires later_world 1
      (snd (generateTAP example_world example_config (newTAPManager Absent)))) 1 = None \<and>
   currentTAP (intervalFires later_world 1
      (snd (generateTAP example_world example_config (newTAPManager Absent)))) = None \<and>
   tapHistory (intervalFires later_world 1
      (snd (generateTAP example_world example_config (newTAPManager Absent)))) =
     [example_tap ''tap-1'']"
proof -
  let ?s = "snd (generateTAP example_world example_config (newTAPManager Absent))"
  have g: "fst (generateTAP example_world example_config (newTAPManager Absent)) =
      Inr (example_tap ''tap-1'')"
    by (rule example_generation)
  have s: "currentTAP ?s = Some (example_tap ''tap-1'') \<and> currentCountdownInterval ?s = Some 1 \<and>
      intervals ?s 1 = Some 1060000 \<and> tapHistory ?s = [example_tap ''tap-1'']"
    by (simp add: tap_defs example_defs getAccessToken_def Let_def)
  have l: "hasCountdownElement example_world \<and> 1060000 - now later_world \<le> 0"
    by (simp add: example_defs)
  from countdown_expiry
    [where s = ?s and i = 1 and expiresTime = 1060000 and w = later_world] s l g
  show ?thesis by simp
qed

text \<open>
  Claim C8. The claim fails on the code for a pass that was replaced while on display.
  \<^verbatim>\<open>startTAPCountdown\<close> overwrites the handle of the running timer without clearing
  it, against its own comment and against what \<^verbatim>\<open>hideTAPDisplay\<close> does for the current
  handle. With the example pass (one minute) generated and then a second pass (one hour),
  the first timer fires 61 seconds after the creation: it computes a remaining time
  below zero, does not stop (its handle stays registered), clears the timer of the second
  pass and empties the current pass, which would be valid for another 59 minutes. The
  two history entries are retained.
\<close>

theorem replaced_ticker_keeps_running:
  "map tap_id (tapHistory two_passes) = [''tap-1'', ''tap-2''] \<and>
   map_option tap_id (currentTAP two_passes) = Some ''tap-2'' \<and>
   map_option expiresDateTime (currentTAP two_passes) = Some 4600000 \<and>
   currentCountdownInterval two_passes = Some 2 \<and>
   intervals two_passes 1 = Some 1060000 \<and>
   intervals two_passes 2 = Some 4600000 \<and>
   now later_world = 1061000 \<and>
   intervals (intervalFires later_world 1 two_passes) 1 = Some 1060000 \<and>
   intervals (intervalFires later_world 1 two_passes) 2 = None \<and>
   currentCountdownInterval (intervalFires later_world 1 two_passes) = None \<and>
   currentTAP (intervalFires later_world 1 two_passes) = None \<and>
   map tap_id (tapHistory (intervalFires later_world 1 two_passes)) = [''tap-1'', ''tap-2''] \<and>
   intervals (intervalFires later_world 1 (intervalFires later_world 1 two_passes)) 1 =
     Some 1060000"
  by (simp add: two_passes_def second_world_def tap_defs example_defs getAccessToken_def Let_def)

section \<open>The authentication manager: the passwordless status\<close>

lemma statusFailed_fields:
  "hasPasswordless (statusFailed e) = False"
  "status_methods (statusFailed e) = []"
  "allMethods (statusFailed e) = []"
  by (simp_all add: statusFailed_def)

text \<open>
  Claim C9. \<^verbatim>\<open>checkPasswordlessStatus\<close> answers \<open>hasPasswordless = False\<close> with both
  lists empty when the token cannot be obtained, the fetch is rejected, the status is
  not a success, or the body cannot be read; and when the methods list holds one entry
  with an allow-listed type among entries without, it answers \<open>hasPasswordless = True\<close>
  with exactly that entry as \<open>methods\<close>.
\<close>

theorem checkPasswordlessStatus_fails_open:
  "((\<exists>e. getAccessToken w a = Inl e) \<or> (\<exists>e. fetchMethods w = Inl e) \<or>
    (\<exists>r. fetchMethods w = Inr r \<and> (\<not> ok r \<or> (\<exists>e. json r = Inl e) \<or> json r = Inr None)) \<longrightarrow>
      hasPasswordless (checkPasswordlessStatus w a) = False \<and>
      status_methods (checkPasswordlessStatus w a) = [] \<and>
      allMethods (checkPasswordlessStatus w a) = []) \<and>
   (getAccessToken w a = Inr token \<and> fetchMethods w = Inr r \<and> ok r \<and>
    json r = Inr (Some (xs @ m # ys)) \<and> isPasswordlessMethod m \<and>
    (\<forall>x\<in>set xs \<union> set ys. \<not> isPasswordlessMethod x) \<longrightarrow>
      hasPasswordless (checkPasswordlessStatus w a) = True \<and>
      status_methods (checkPasswordlessStatus w a) = [m] \<and>
      allMethods (checkPasswordlessStatus w a) = xs @ m # ys)"
proof -
  have a: "(\<exists>e. getAccessToken w a = Inl e) \<or> (\<exists>e. fetchMethods w = Inl e) \<or>
    (\<exists>r. fetchMethods w = Inr r \<and> (\<not> ok r \<or> (\<exists>e. json r = Inl e) \<or> json r = Inr None)) \<longrightarrow>
      hasPasswordless (checkPasswordlessStatus w a) = False \<and>
      status_methods (checkPasswordlessStatus w a) = [] \<and>
      allMethods (checkPasswordlessStatus w a) = []"
    by (auto simp: checkPasswordlessStatus_def statusFailed_fields split: sum.splits option.splits)
  have b: "getAccessToken w a = Inr token \<and> fetchMethods w = Inr r \<and> ok r \<and>
    json r = Inr (Some (xs @ m # ys)) \<and> isPasswordlessMethod m \<and>
    (\<forall>x\<in>set xs \<union> set ys. \<not> isPasswordlessMethod x) \<longrightarrow>
      hasPasswordless (checkPasswordlessStatus w a) = True \<and>
      status_methods (checkPasswordlessStatus w a) = [m] \<and>
      allMethods (checkPasswordlessStatus w a) = xs @ m # ys"
  proof (intro impI, elim conjE)
    assume t: "getAccessToken w a = Inr token" and f: "fetchMethods w = Inr r" and o: "ok r"
      and j: "json r = Inr (Some (xs @ m # ys))" and pm: "isPasswordlessMethod m"
      and others: "\<forall>x\<in>set xs \<union> set ys. \<not> isPasswordlessMethod x"
    from others have "filter isPasswordlessMethod xs = []" and "filter isPasswordlessMethod ys = []"
      by (simp_all add: filter_empty_conv)
    with pm have "filter isPasswordlessMethod (xs @ m # ys) = [m]" by simp
    with t f o j show "hasPasswordless (checkPasswordlessStatus w a) = True \<and>
      status_methods (checkPasswordlessStatus w a) = [m] \<and>
      allMethods (checkPasswordlessStatus w a) = xs @ m # ys"
      by (simp add: checkPasswordlessStatus_def Let_def)
  qed
  from a b show ?thesis by blast
qed

theorem checkPasswordlessStatus_fails_open_witness:
  "fetchMethods offline_world = Inl (TypeError ''Failed to fetch'') \<and>
   hasPasswordless (checkPasswordlessStatus offline_world example_auth) = False \<and>
   status_methods (checkPasswordlessStatus offline_world example_auth) = [] \<and>
   allMethods (checkPasswordlessStatus offline_world example_auth) = [] \<and>
   isPasswordlessMethod example_method \<and>
   getAccessToken biometric_world example_auth = Inr ''token'' \<and>
   hasPasswordless (checkPasswordlessStatus biometric_world example_auth) = True \<and>
   status_methods (checkPasswordlessStatus biometric_world example_auth) = [example_method]"
  using checkPasswordlessStatus_fails_open
      [where w = offline_world and a = example_auth]
    checkPasswordlessStatus_fails_open
      [where w = biometric_world and a = example_auth and token = "''token''" and xs = "[]"
         and ys = "[]" and m = example_method
         and r = "\<lparr>ok = True, status = 200, statusText = ''OK'', json = Inr (Some [example_method])\<rparr>"]
  by (simp add: offline_world_def example_defs getAccessToken_def isPasswordlessMethod_def)

end
